theory Spec2Isabelle
  imports Main "HOL-Library.AList" "HOL-Library.Word" "HOL-Library.Sublist"
begin

unbundle bit_operations_syntax

section \<open>Python values, dictionaries and the object store\<close>

text \<open>
  The normalizers of \<^verbatim>\<open>shade/_normalize.py\<close> work on deserialized JSON: \<^verbatim>\<open>None\<close>,
  booleans, unbounded integers, floats, strings, lists, tuples and string-keyed
  dictionaries (\<^verbatim>\<open>dict\<close> or \<^verbatim>\<open>munch.Munch\<close>, which share \<^verbatim>\<open>pop\<close>, \<^verbatim>\<open>get\<close>,
  \<^verbatim>\<open>setdefault\<close>, \<^verbatim>\<open>copy\<close> and \<^verbatim>\<open>items\<close>). Dictionaries are the only objects the
  code mutates, and it mutates them through references that may be shared with the
  caller, so a dictionary is an object in a store and a value holds its address.
  Lists are never mutated by the code and are kept as values. A float is its IEEE-754
  binary64 bit pattern. Strings are ASCII; the semantics followed is Python 3.
\<close>

type_synonym addr = nat

datatype pyval =
    PNone
  | PBool bool
  | PInt int
  | PFloat "64 word"
  | PStr string
  | PList "pyval list"
  | PTuple "pyval list"
  | PRef addr

text \<open>A dictionary keeps insertion order, as Python's does.\<close>

type_synonym pydict = "(string \<times> pyval) list"

type_synonym store = "pydict list"

datatype pyerror =
    KeyError string
  | AttributeError
  | TypeError
  | ValueError
  | OverflowError
  | OpenStackCloudException string
  | NoSuchObject

text \<open>
  \<open>NoSuchObject\<close> is not a Python exception: it is the outcome for an address outside
  the store, which no Python program can hold.
\<close>

definition deref :: "store \<Rightarrow> addr \<Rightarrow> pydict option" where
  "deref h a = (if a < length h then Some (h ! a) else None)"

definition alloc :: "store \<Rightarrow> pydict \<Rightarrow> store \<times> addr" where
  "alloc h d = (h @ [d], length h)"

definition store_update :: "store \<Rightarrow> addr \<Rightarrow> pydict \<Rightarrow> store" where
  "store_update h a d = h[a := d]"

definition bind_err :: "'e + 'a \<Rightarrow> ('a \<Rightarrow> 'e + 'b) \<Rightarrow> 'e + 'b" where
  "bind_err m f = (case m of Inl e \<Rightarrow> Inl e | Inr x \<Rightarrow> f x)"

subsection \<open>Dictionary methods\<close>

text \<open>\<^verbatim>\<open>d.get(k, default)\<close>\<close>

definition dict_get :: "pydict \<Rightarrow> string \<Rightarrow> pyval \<Rightarrow> pyval" where
  "dict_get d k dflt = (case map_of d k of Some v \<Rightarrow> v | None \<Rightarrow> dflt)"

text \<open>Removing a key (the effect of \<^verbatim>\<open>pop\<close> on the dictionary).\<close>

definition dict_del :: "pydict \<Rightarrow> string \<Rightarrow> pydict" where
  "dict_del d k = AList.delete k d"

text \<open>\<^verbatim>\<open>d.pop(k, default)\<close>: the value and the dictionary without the key.\<close>

definition dict_pop :: "pydict \<Rightarrow> string \<Rightarrow> pyval \<Rightarrow> pyval \<times> pydict" where
  "dict_pop d k dflt = (dict_get d k dflt, dict_del d k)"

text \<open>\<^verbatim>\<open>d.pop(k)\<close> raises \<^verbatim>\<open>KeyError\<close> on a missing key.\<close>

definition dict_pop_req :: "pydict \<Rightarrow> string \<Rightarrow> pyerror + (pyval \<times> pydict)" where
  "dict_pop_req d k =
     (case map_of d k of
        None \<Rightarrow> Inl (KeyError k)
      | Some v \<Rightarrow> Inr (v, dict_del d k))"


text \<open>\<^verbatim>\<open>d[k] = v\<close>: an existing key keeps its position, a new one goes last.\<close>

definition dict_set :: "pydict \<Rightarrow> string \<Rightarrow> pyval \<Rightarrow> pydict" where
  "dict_set d k v = AList.update k v d"

text \<open>\<^verbatim>\<open>d.setdefault(k, v)\<close>\<close>

definition dict_setdefault :: "pydict \<Rightarrow> string \<Rightarrow> pyval \<Rightarrow> pydict" where
  "dict_setdefault d k v = (case map_of d k of Some _ \<Rightarrow> d | None \<Rightarrow> d @ [(k, v)])"

subsection \<open>Builtins\<close>

definition float_is_zero :: "64 word \<Rightarrow> bool" where
  "float_is_zero w = (w AND 0x7FFFFFFFFFFFFFFF = 0)"

text \<open>
  \<^verbatim>\<open>int(x)\<close> for a float truncates towards zero; infinities raise
  \<^verbatim>\<open>OverflowError\<close> and NaN raises \<^verbatim>\<open>ValueError\<close>.
\<close>

definition float_trunc :: "64 word \<Rightarrow> pyerror + int" where
  "float_trunc w =
     (let e = unat (drop_bit 52 w AND 0x7FF);
          m = uint (w AND 0xFFFFFFFFFFFFF);
          mag = (if e = 0 then 0
                 else if 1075 \<le> e then (2 ^ 52 + m) * 2 ^ (e - 1075)
                 else (2 ^ 52 + m) div 2 ^ (1075 - e))
      in if e = 2047 then (if m = 0 then Inl OverflowError else Inl ValueError)
         else Inr (if bit w 63 then - mag else mag))"

text \<open>Truthiness (\<^verbatim>\<open>bool(x)\<close>, \<^verbatim>\<open>if x\<close>, \<^verbatim>\<open>x or y\<close>).\<close>

fun py_truthy :: "store \<Rightarrow> pyval \<Rightarrow> bool" where
  "py_truthy h PNone = False"
| "py_truthy h (PBool b) = b"
| "py_truthy h (PInt n) = (n \<noteq> 0)"
| "py_truthy h (PFloat w) = (\<not> float_is_zero w)"
| "py_truthy h (PStr s) = (s \<noteq> [])"
| "py_truthy h (PList xs) = (xs \<noteq> [])"
| "py_truthy h (PTuple xs) = (xs \<noteq> [])"
| "py_truthy h (PRef a) = (case deref h a of Some d \<Rightarrow> d \<noteq> [] | None \<Rightarrow> True)"

definition py_or :: "store \<Rightarrow> pyval \<Rightarrow> pyval \<Rightarrow> pyval" where
  "py_or h x y = (if py_truthy h x then x else y)"

text \<open>
  \<^verbatim>\<open>int(s)\<close> for a string: surrounding whitespace is stripped, then an optional sign
  and decimal digits, where single underscores may separate digits.
\<close>

definition is_space :: "char \<Rightarrow> bool" where
  "is_space c = (c \<in> set [CHR '' '', CHR 0x09, CHR 0x0A, CHR 0x0B, CHR 0x0C, CHR 0x0D])"

definition is_digit :: "char \<Rightarrow> bool" where
  "is_digit c = (48 \<le> (of_char c :: nat) \<and> (of_char c :: nat) \<le> 57)"

definition digit_val :: "char \<Rightarrow> nat" where
  "digit_val c = of_char c - 48"

definition str_strip :: "string \<Rightarrow> string" where
  "str_strip s = rev (dropWhile is_space (rev (dropWhile is_space s)))"

fun parse_digits :: "nat \<Rightarrow> string \<Rightarrow> nat option" where
  "parse_digits acc [] = Some acc"
| "parse_digits acc [c] = (if is_digit c then Some (10 * acc + digit_val c) else None)"
| "parse_digits acc (c # c' # cs) =
     (if is_digit c then parse_digits (10 * acc + digit_val c) (c' # cs)
      else if c = CHR ''_'' \<and> is_digit c' then parse_digits acc (c' # cs)
      else None)"

definition parse_nat :: "string \<Rightarrow> nat option" where
  "parse_nat s =
     (case s of
        [] \<Rightarrow> None
      | c # cs \<Rightarrow> if is_digit c then parse_digits 0 s else None)"

definition parse_int :: "string \<Rightarrow> int option" where
  "parse_int s =
     (case str_strip s of
        [] \<Rightarrow> None
      | c # cs \<Rightarrow>
          if c = CHR ''-'' then map_option (\<lambda>n. - int n) (parse_nat cs)
          else if c = CHR ''+'' then map_option int (parse_nat cs)
          else map_option int (parse_nat (c # cs)))"

fun py_int :: "pyval \<Rightarrow> pyerror + int" where
  "py_int (PInt n) = Inr n"
| "py_int (PBool b) = Inr (if b then 1 else 0)"
| "py_int (PFloat w) = float_trunc w"
| "py_int (PStr s) = (case parse_int s of Some n \<Rightarrow> Inr n | None \<Rightarrow> Inl ValueError)"
| "py_int PNone = Inl TypeError"
| "py_int (PList xs) = Inl TypeError"
| "py_int (PTuple xs) = Inl TypeError"
| "py_int (PRef a) = Inl TypeError"

text \<open>
  \<^verbatim>\<open>x == n\<close> for an integer literal \<open>n\<close>: an integer equals it by value, a boolean as
  the integer 0 or 1, a float when it is finite and has exactly that value; nothing
  else equals an integer.
\<close>

definition float_eq_int :: "64 word \<Rightarrow> int \<Rightarrow> bool" where
  "float_eq_int w n =
     (let e = unat (drop_bit 52 w AND 0x7FF);
          m = uint (w AND 0xFFFFFFFFFFFFF);
          sig = (if e = 0 then m else 2 ^ 52 + m);
          ex = (if e = 0 then 1 else e);
          s = (if bit w 63 then - sig else sig)
      in e \<noteq> 2047 \<and>
         (if 1075 \<le> ex then s * 2 ^ (ex - 1075) = n else s = n * 2 ^ (1075 - ex)))"

fun py_eq_int :: "pyval \<Rightarrow> int \<Rightarrow> bool" where
  "py_eq_int (PInt k) n = (k = n)"
| "py_eq_int (PBool b) n = ((if b then 1 else 0) = n)"
| "py_eq_int (PFloat w) n = float_eq_int w n"
| "py_eq_int _ n = False"

text \<open>\<^verbatim>\<open>x == s\<close> for a string literal \<open>s\<close>: only a string can equal it.\<close>

fun py_eq_str :: "pyval \<Rightarrow> string \<Rightarrow> bool" where
  "py_eq_str (PStr t) s = (t = s)"
| "py_eq_str _ s = False"

definition lower_char :: "char \<Rightarrow> char" where
  "lower_char c =
     (let n = (of_char c :: nat) in if 65 \<le> n \<and> n \<le> 90 then char_of (n + 32) else c)"

definition upper_char :: "char \<Rightarrow> char" where
  "upper_char c =
     (let n = (of_char c :: nat) in if 97 \<le> n \<and> n \<le> 122 then char_of (n - 32) else c)"

definition str_lower :: "string \<Rightarrow> string" where
  "str_lower s = map lower_char s"

definition str_capitalize :: "string \<Rightarrow> string" where
  "str_capitalize s = (case s of [] \<Rightarrow> [] | c # cs \<Rightarrow> upper_char c # map lower_char cs)"

section \<open>Helpers of \<^verbatim>\<open>_normalize.py\<close>\<close>

definition to_bool :: "store \<Rightarrow> pyval \<Rightarrow> bool" where
  "to_bool h v =
     (case v of
        PStr s \<Rightarrow>
          if \<not> py_truthy h v then False
          else str_capitalize (str_lower s) = ''True''
      | _ \<Rightarrow> py_truthy h v)"

definition pop_int :: "store \<Rightarrow> pydict \<Rightarrow> string \<Rightarrow> pyerror + (int \<times> pydict)" where
  "pop_int h resource key =
     (let (v, resource) = dict_pop resource key (PInt 0)
      in bind_err (py_int (py_or h v (PInt 0))) (\<lambda>n. Inr (n, resource)))"

definition pop_or_get :: "pydict \<Rightarrow> string \<Rightarrow> pyval \<Rightarrow> bool \<Rightarrow> pyval \<times> pydict" where
  "pop_or_get resource key dflt strict =
     (if strict then dict_pop resource key dflt
      else (dict_get resource key dflt, resource))"

text \<open>
  The mix-in reads its host object: \<^verbatim>\<open>self.strict_mode\<close>, \<^verbatim>\<open>self.current_location\<close>,
  \<^verbatim>\<open>self._get_current_location(project_id=..., zone=...)\<close>, \<^verbatim>\<open>self.region_name\<close>,
  \<^verbatim>\<open>self.name\<close> and \<^verbatim>\<open>self._use_neutron_floating()\<close>. The host class is not part of
  the sources, so these are the fields of a context value; the location resolver
  takes the project id and the zone keyword when the call passes one. \<^verbatim>\<open>float\<close> is
  Python's builtin conversion (rounding and parsing are not modelled) and is a field
  as well.
\<close>

record cloud =
  strict_mode :: bool
  current_location :: pyval
  get_current_location :: "pyval \<Rightarrow> pyval option \<Rightarrow> pyval"
  region_name :: pyval
  cloud_name :: pyval
  use_neutron_floating :: bool
  py_float :: "pyval \<Rightarrow> pyerror + pyval"

text \<open>
  The backwards-compatibility loop shared by five normalizers:
  \<^verbatim>\<open>for key, val in ret['properties'].items(): ret.setdefault(key, val)\<close>
\<close>

definition setdefault_all :: "pydict \<Rightarrow> pydict \<Rightarrow> pydict" where
  "setdefault_all props ret = fold (\<lambda>(key, val) r. dict_setdefault r key val) props ret"

text \<open>
  Five normalizers end with the same compatibility loop. For each of them the function
  up to that loop is a definition of its own, \<open>..._record\<close>, which returns the store,
  the record built so far and the dictionary stored under \<^verbatim>\<open>properties\<close>; the
  normalizer then runs the loop when strict mode is off.
\<close>

definition compat_loop :: "cloud \<Rightarrow> store \<times> pydict \<times> pydict \<Rightarrow> pyerror + (store \<times> pydict)" where
  "compat_loop self = (\<lambda>(h, ret, properties).
     Inr (h, if \<not> strict_mode self then setdefault_all properties ret else ret))"

section \<open>Attribute access on an arbitrary value\<close>

text \<open>
  \<^verbatim>\<open>v.get(k, default)\<close> where \<open>v\<close> was read from a record: only a dictionary has the
  method, anything else raises \<^verbatim>\<open>AttributeError\<close>.
\<close>

definition value_get :: "store \<Rightarrow> pyval \<Rightarrow> string \<Rightarrow> pyval \<Rightarrow> pyerror + pyval" where
  "value_get h v k dflt =
     (case v of
        PRef a \<Rightarrow>
          (case deref h a of
             None \<Rightarrow> Inl NoSuchObject
           | Some d \<Rightarrow> Inr (dict_get d k dflt))
      | _ \<Rightarrow> Inl AttributeError)"


section \<open>The security-group-rule normalizer\<close>

text \<open>
  \<^verbatim>\<open>if x is not None: x = int(x)\<close>, the statement the rule normalizer runs twice on
  \<^verbatim>\<open>port_range_min\<close>.
\<close>

definition int_if_not_none :: "pyval \<Rightarrow> pyerror + pyval" where
  "int_if_not_none x =
     (if x \<noteq> PNone then bind_err (py_int x) (\<lambda>n. Inr (PInt n)) else Inr x)"

text \<open>
  \<^verbatim>\<open>_normalize_secgroup_rule\<close>. \<open>rule\<close> is the shallow copy the function makes first;
  nothing else refers to it until it is stored as \<^verbatim>\<open>ret['properties']\<close>, where it
  becomes an object of the store. A default argument that is itself a \<^verbatim>\<open>pop\<close> is
  evaluated before the outer call, as Python evaluates arguments. The default \<^verbatim>\<open>{}\<close>
  of \<^verbatim>\<open>ip_range\<close> is only read (it has no \<^verbatim>\<open>cidr\<close>) and then dropped. The returned
  \<^verbatim>\<open>Munch\<close> is fresh and is returned by its contents.
\<close>

definition secgroup_rule_record ::
  "cloud \<Rightarrow> store \<Rightarrow> addr \<Rightarrow> pyerror + (store \<times> pydict \<times> pydict)" where
  "secgroup_rule_record self h a =
     bind_err (case deref h a of None \<Rightarrow> Inl NoSuchObject | Some d \<Rightarrow> Inr d) (\<lambda>rule.
     bind_err (dict_pop_req rule ''id'') (\<lambda>(v, rule).
     let ret = dict_set [] ''id'' v;
         (v, rule) = dict_pop rule ''direction'' (PStr ''ingress'');
         ret = dict_set ret ''direction'' v;
         (v, rule) = dict_pop rule ''ethertype'' (PStr ''IPv4'');
         ret = dict_set ret ''ethertype'' v;
         (from_port, rule) = dict_pop rule ''from_port'' PNone;
         port_range_min = dict_get rule ''port_range_min'' from_port;
         port_range_min = (if py_eq_int port_range_min (- 1) then PNone else port_range_min)
     in
     bind_err (int_if_not_none port_range_min) (\<lambda>port_range_min.
     let ret = dict_set ret ''port_range_min'' port_range_min;
         (to_port, rule) = dict_pop rule ''to_port'' PNone;
         (port_range_max, rule) = dict_pop rule ''port_range_max'' to_port;
         port_range_max = (if py_eq_int port_range_max (- 1) then PNone else port_range_max)
     in
     bind_err (int_if_not_none port_range_min) (\<lambda>port_range_min.
     let ret = dict_set ret ''port_range_max'' port_range_max;
         (ip_protocol, rule) = dict_pop rule ''ip_protocol'' PNone;
         (v, rule) = dict_pop rule ''protocol'' ip_protocol;
         ret = dict_set ret ''protocol'' v;
         ip_range = map_of rule ''ip_range'';
         rule = dict_del rule ''ip_range''
     in
     bind_err (case ip_range of
                 None \<Rightarrow> Inr PNone
               | Some r \<Rightarrow> value_get h r ''cidr'' PNone) (\<lambda>cidr.
     let (v, rule) = dict_pop rule ''remote_ip_prefix'' cidr;
         ret = dict_set ret ''remote_ip_prefix'' v;
         (parent_group_id, rule) = dict_pop rule ''parent_group_id'' PNone;
         (v, rule) = dict_pop rule ''security_group_id'' parent_group_id;
         ret = dict_set ret ''security_group_id'' v;
         (v, rule) = dict_pop rule ''remote_group_id'' PNone;
         ret = dict_set ret ''remote_group_id'' v;
         (project_id, rule) = dict_pop rule ''tenant_id'' (PStr []);
         (project_id, rule) = dict_pop rule ''project_id'' project_id;
         ret = dict_set ret ''location'' (get_current_location self project_id None);
         (h, p) = alloc h rule;
         ret = dict_set ret ''properties'' (PRef p);
         ret = (if \<not> strict_mode self
                then let ret = dict_set ret ''tenant_id'' project_id;
                         ret = dict_set ret ''project_id'' project_id
                     in ret
                else ret)
     in Inr (h, ret, rule))))))"

definition normalize_secgroup_rule :: "cloud \<Rightarrow> store \<Rightarrow> addr \<Rightarrow> pyerror + (store \<times> pydict)" where
  "normalize_secgroup_rule self h a =
     bind_err (secgroup_rule_record self h a) (compat_loop self)"

text \<open>
  Iterating a value with \<^verbatim>\<open>for x in v\<close>: a list or tuple gives its elements, a string
  its characters, a dictionary its keys; anything else raises \<^verbatim>\<open>TypeError\<close>.
\<close>

definition py_iter :: "store \<Rightarrow> pyval \<Rightarrow> pyerror + pyval list" where
  "py_iter h v =
     (case v of
        PList xs \<Rightarrow> Inr xs
      | PTuple xs \<Rightarrow> Inr xs
      | PStr s \<Rightarrow> Inr (map (\<lambda>c. PStr [c]) s)
      | PRef a \<Rightarrow>
          (case deref h a of
             None \<Rightarrow> Inl NoSuchObject
           | Some d \<Rightarrow> Inr (map (\<lambda>(k, _). PStr k) d))
      | _ \<Rightarrow> Inl TypeError)"

text \<open>
  \<^verbatim>\<open>_normalize_secgroup_rules\<close>: the loop appends one normalized rule per element. An
  element that is no dictionary fails in the rule normalizer's first two statements:
  a list has \<^verbatim>\<open>copy\<close> but its \<^verbatim>\<open>pop('id')\<close> raises \<^verbatim>\<open>TypeError\<close>; other values have
  no \<^verbatim>\<open>copy\<close>. Each returned \<^verbatim>\<open>Munch\<close> becomes an object of the store, referred to
  from the result list.
\<close>

fun normalize_secgroup_rules_loop ::
  "cloud \<Rightarrow> store \<Rightarrow> pyval list \<Rightarrow> pyerror + (store \<times> pyval list)" where
  "normalize_secgroup_rules_loop self h [] = Inr (h, [])"
| "normalize_secgroup_rules_loop self h (rule # rules) =
     bind_err (case rule of
                 PRef a \<Rightarrow> normalize_secgroup_rule self h a
               | PList xs \<Rightarrow> Inl TypeError
               | _ \<Rightarrow> Inl AttributeError) (\<lambda>(h, r).
     let (h, p) = alloc h r in
     bind_err (normalize_secgroup_rules_loop self h rules) (\<lambda>(h, ret).
     Inr (h, PRef p # ret)))"

definition normalize_secgroup_rules ::
  "cloud \<Rightarrow> store \<Rightarrow> pyval \<Rightarrow> pyerror + (store \<times> pyval list)" where
  "normalize_secgroup_rules self h rules =
     bind_err (py_iter h rules) (\<lambda>xs. normalize_secgroup_rules_loop self h xs)"

section \<open>The security-group normalizer\<close>

definition secgroup_record ::
  "cloud \<Rightarrow> store \<Rightarrow> addr \<Rightarrow> pyerror + (store \<times> pydict \<times> pydict)" where
  "secgroup_record self h a =
     bind_err (case deref h a of None \<Rightarrow> Inl NoSuchObject | Some d \<Rightarrow> Inr d) (\<lambda>group.
     let (rules, group) = dict_pop group ''rules'' (PList []);
         (rules, group) = dict_pop group ''security_group_rules'' rules
     in
     bind_err (normalize_secgroup_rules self h rules) (\<lambda>(h, rules).
     let (project_id, group) = dict_pop group ''tenant_id'' (PStr []);
         (project_id, group) = dict_pop group ''project_id'' project_id;
         ret = dict_set [] ''location'' (get_current_location self project_id None)
     in
     bind_err (dict_pop_req group ''id'') (\<lambda>(v, group).
     let ret = dict_set ret ''id'' v in
     bind_err (dict_pop_req group ''name'') (\<lambda>(v, group).
     let ret = dict_set ret ''name'' v;
         ret = dict_set ret ''security_group_rules'' (PList rules)
     in
     bind_err (dict_pop_req group ''description'') (\<lambda>(v, group).
     let ret = dict_set ret ''description'' v;
         (h, p) = alloc h group;
         ret = dict_set ret ''properties'' (PRef p);
         ret = (if \<not> strict_mode self
                then let ret = dict_set ret ''tenant_id'' project_id;
                         ret = dict_set ret ''project_id'' project_id
                     in ret
                else ret)
     in Inr (h, ret, group))))))"

definition normalize_secgroup :: "cloud \<Rightarrow> store \<Rightarrow> addr \<Rightarrow> pyerror + (store \<times> pydict)" where
  "normalize_secgroup self h a =
     bind_err (secgroup_record self h a) (compat_loop self)"

section \<open>The flavor normalizer\<close>

definition pop_float :: "cloud \<Rightarrow> store \<Rightarrow> pydict \<Rightarrow> string \<Rightarrow> pyerror + (pyval \<times> pydict)" where
  "pop_float self h resource key =
     (let (v, resource) = dict_pop resource key (PInt 0)
      in bind_err (py_float self (py_or h v (PInt 0))) (\<lambda>f. Inr (f, resource)))"

text \<open>
  \<^verbatim>\<open>_normalize_flavor\<close>. \<open>flavor\<close> is the shallow copy. The default \<^verbatim>\<open>{}\<close> of
  \<^verbatim>\<open>extra_specs\<close> is stored in the result, so it becomes a new object when it is used.
\<close>

definition flavor_record ::
  "cloud \<Rightarrow> store \<Rightarrow> addr \<Rightarrow> pyerror + (store \<times> pydict \<times> pydict)" where
  "flavor_record self h a =
     bind_err (case deref h a of None \<Rightarrow> Inl NoSuchObject | Some d \<Rightarrow> Inr d) (\<lambda>flavor.
     let flavor = dict_del flavor ''links'';
         flavor = dict_del flavor ''NAME_ATTR'';
         flavor = dict_del flavor ''HUMAN_ID'';
         flavor = dict_del flavor ''human_id'';
         (v, flavor) = pop_or_get flavor ''OS-FLV-EXT-DATA:ephemeral'' (PInt 0) (strict_mode self)
     in
     bind_err (py_int v) (\<lambda>ephemeral.
     let (ephemeral, flavor) = dict_pop flavor ''ephemeral'' (PInt ephemeral);
         (v, flavor) = pop_or_get flavor ''os-flavor-access:is_public'' (PBool True) (strict_mode self);
         is_public = to_bool h v;
         (v, flavor) = dict_pop flavor ''is_public'' (PBool is_public);
         is_public = to_bool h v;
         (v, flavor) = pop_or_get flavor ''OS-FLV-DISABLED:disabled'' (PBool False) (strict_mode self);
         is_disabled = to_bool h v;
         extra = map_of flavor ''extra_specs'';
         flavor = dict_del flavor ''extra_specs'';
         (h, extra_specs) = (case extra of
                               Some v \<Rightarrow> (h, v)
                             | None \<Rightarrow> (let (h, e) = alloc h [] in (h, PRef e)));
         new_flavor = dict_set [] ''location'' (current_location self)
     in
     bind_err (dict_pop_req flavor ''id'') (\<lambda>(v, flavor).
     let new_flavor = dict_set new_flavor ''id'' v in
     bind_err (dict_pop_req flavor ''name'') (\<lambda>(v, flavor).
     let new_flavor = dict_set new_flavor ''name'' v;
         new_flavor = dict_set new_flavor ''is_public'' (PBool is_public);
         new_flavor = dict_set new_flavor ''is_disabled'' (PBool is_disabled)
     in
     bind_err (pop_int h flavor ''ram'') (\<lambda>(n, flavor).
     let new_flavor = dict_set new_flavor ''ram'' (PInt n) in
     bind_err (pop_int h flavor ''vcpus'') (\<lambda>(n, flavor).
     let new_flavor = dict_set new_flavor ''vcpus'' (PInt n) in
     bind_err (pop_int h flavor ''disk'') (\<lambda>(n, flavor).
     let new_flavor = dict_set new_flavor ''disk'' (PInt n);
         new_flavor = dict_set new_flavor ''ephemeral'' ephemeral
     in
     bind_err (pop_int h flavor ''swap'') (\<lambda>(n, flavor).
     let new_flavor = dict_set new_flavor ''swap'' (PInt n) in
     bind_err (pop_float self h flavor ''rxtx_factor'') (\<lambda>(v, flavor).
     let new_flavor = dict_set new_flavor ''rxtx_factor'' v;
         (h, p) = alloc h flavor;
         new_flavor = dict_set new_flavor ''properties'' (PRef p);
         new_flavor = dict_set new_flavor ''extra_specs'' extra_specs
     in Inr (h, new_flavor, flavor))))))))))"

definition normalize_flavor :: "cloud \<Rightarrow> store \<Rightarrow> addr \<Rightarrow> pyerror + (store \<times> pydict)" where
  "normalize_flavor self h a =
     bind_err (flavor_record self h a) (compat_loop self)"

section \<open>The server normalizer\<close>






section \<open>The floating-IP normalizer\<close>

text \<open>
  \<^verbatim>\<open>_normalize_floating_ip\<close>. The trailing comma of
  \<^verbatim>\<open>ret['floating_network_id'] = network_id,\<close> makes the value a one-element tuple.
\<close>

definition floating_ip_record ::
  "cloud \<Rightarrow> store \<Rightarrow> addr \<Rightarrow> pyerror + (store \<times> pydict \<times> pydict)" where
  "floating_ip_record self h a =
     bind_err (case deref h a of None \<Rightarrow> Inl NoSuchObject | Some d \<Rightarrow> Inr d) (\<lambda>ip.
     let (fixed_ip, ip) = dict_pop ip ''fixed_ip'' PNone;
         (fixed_ip_address, ip) = dict_pop ip ''fixed_ip_address'' fixed_ip;
         (ip_addr, ip) = dict_pop ip ''ip'' PNone;
         (floating_ip_address, ip) = dict_pop ip ''floating_ip_address'' ip_addr;
         (pool, ip) = dict_pop ip ''pool'' PNone;
         (network, ip) = dict_pop ip ''network'' pool;
         (network_id, ip) = dict_pop ip ''floating_network_id'' network;
         (project_id, ip) = dict_pop ip ''tenant_id'' (PStr []);
         (project_id, ip) = dict_pop ip ''project_id'' project_id;
         (instance_id, ip) = dict_pop ip ''instance_id'' PNone;
         (router_id, ip) = dict_pop ip ''router_id'' PNone
     in
     bind_err (dict_pop_req ip ''id'') (\<lambda>(id, ip).
     let (port_id, ip) = dict_pop ip ''port_id'' PNone;
         (attached, status, ip) =
           (if use_neutron_floating self
            then let (status, ip) = dict_pop ip ''status'' (PStr ''UNKNOWN'')
                 in (py_truthy h port_id, status, ip)
            else (py_truthy h instance_id, PStr ''ACTIVE'', ip));
         ret = dict_set [] ''attached'' (PBool attached);
         ret = dict_set ret ''fixed_ip_address'' fixed_ip_address;
         ret = dict_set ret ''floating_ip_address'' floating_ip_address;
         ret = dict_set ret ''id'' id;
         ret = dict_set ret ''location'' (get_current_location self project_id None);
         ret = dict_set ret ''network'' network_id;
         ret = dict_set ret ''port'' port_id;
         ret = dict_set ret ''router'' router_id;
         ret = dict_set ret ''status'' status;
         (h, p) = alloc h ip;
         ret = dict_set ret ''properties'' (PRef p);
         ret = (if \<not> strict_mode self
                then let ret = dict_set ret ''port_id'' port_id;
                         ret = dict_set ret ''router_id'' router_id;
                         ret = dict_set ret ''project_id'' project_id;
                         ret = dict_set ret ''tenant_id'' project_id;
                         ret = dict_set ret ''floating_network_id'' (PTuple [network_id])
                     in ret
                else ret)
     in Inr (h, ret, ip)))"

definition normalize_floating_ip :: "cloud \<Rightarrow> store \<Rightarrow> addr \<Rightarrow> pyerror + (store \<times> pydict)" where
  "normalize_floating_ip self h a =
     bind_err (floating_ip_record self h a) (compat_loop self)"

section \<open>The image normalizer\<close>

definition IMAGE_FIELDS :: "string list" where
  "IMAGE_FIELDS =
     [''checksum'', ''container_format'', ''created_at'', ''direct_url'', ''disk_format'',
      ''file'', ''id'', ''min_disk'', ''min_ram'', ''name'', ''owner'', ''size'', ''status'',
      ''tags'', ''updated_at'', ''virtual_size'']"

text \<open>
  \<^verbatim>\<open>_normalize_image\<close> makes no copy: every \<^verbatim>\<open>image.pop\<close> acts on the caller's object
  at address \<open>a\<close>, which stays in the store throughout.
\<close>

definition store_pop :: "store \<Rightarrow> addr \<Rightarrow> string \<Rightarrow> pyval \<Rightarrow> pyval \<times> store" where
  "store_pop h a k dflt = (dict_get (h ! a) k dflt, store_update h a (dict_del (h ! a) k))"

text \<open>
  \<^verbatim>\<open>for field in (...): new_image[field] = _pop_int(new_image, field)\<close>
\<close>

fun int_fields :: "store \<Rightarrow> string list \<Rightarrow> pydict \<Rightarrow> pyerror + pydict" where
  "int_fields h [] new_image = Inr new_image"
| "int_fields h (field # rest) new_image =
     bind_err (pop_int h new_image field) (\<lambda>(n, new_image).
     int_fields h rest (dict_set new_image field (PInt n)))"

text \<open>\<^verbatim>\<open>v.items()\<close>: only a dictionary has the method.\<close>

definition value_items :: "store \<Rightarrow> pyval \<Rightarrow> pyerror + pydict" where
  "value_items h v =
     (case v of
        PRef p \<Rightarrow> (case deref h p of None \<Rightarrow> Inl NoSuchObject | Some d \<Rightarrow> Inr d)
      | _ \<Rightarrow> Inl AttributeError)"

definition normalize_image :: "cloud \<Rightarrow> store \<Rightarrow> addr \<Rightarrow> pyerror + (store \<times> pydict)" where
  "normalize_image self h a =
     bind_err (case deref h a of None \<Rightarrow> Inl NoSuchObject | Some d \<Rightarrow> Inr d) (\<lambda>image.
     let new_image = dict_set [] ''location''
                       (get_current_location self (dict_get image ''owner'' PNone) None);
         props = map_of (h ! a) ''properties'';
         h = store_update h a (dict_del (h ! a) ''properties'');
         (h, properties) = (case props of
                              Some v \<Rightarrow> (h, v)
                            | None \<Rightarrow> (let (h, p) = alloc h [] in (h, PRef p)));
         (visibility, h) = store_pop h a ''visibility'' PNone;
         (v, h) = store_pop h a ''protected'' (PBool False);
         protected = to_bool h v;
         (is_public, visibility, h) =
           (if py_truthy h visibility
            then (PBool (py_eq_str visibility ''public''), visibility, h)
            else let (is_public, h) = store_pop h a ''is_public'' (PBool False)
                 in (is_public,
                     PStr (if py_truthy h is_public then ''public'' else ''private''), h));
         (new_image, h) =
           fold (\<lambda>field (new_image, h).
                   let (v, h) = store_pop h a field PNone
                   in (dict_set new_image field v, h))
             IMAGE_FIELDS (new_image, h)
     in
     bind_err (int_fields h [''min_ram'', ''min_disk'', ''size'', ''virtual_size''] new_image)
       (\<lambda>new_image.
     let new_image = dict_set new_image ''is_protected'' (PBool protected);
         (v, h) = store_pop h a ''locations'' (PList []);
         new_image = dict_set new_image ''locations'' v;
         items = h ! a
     in
     bind_err (if items = [] then Inr h
               else bind_err (value_items h properties) (\<lambda>pd.
                    case properties of
                      PRef p \<Rightarrow> Inr (store_update h p (setdefault_all items pd))
                    | _ \<Rightarrow> Inl AttributeError)) (\<lambda>h.
     let new_image = dict_set new_image ''properties'' properties;
         new_image = dict_set new_image ''visibility'' visibility;
         new_image = dict_set new_image ''is_public'' is_public
     in
     if \<not> strict_mode self
     then bind_err (value_items h properties) (\<lambda>pd.
          let new_image = fold (\<lambda>(key, val) r. dict_set r key val) pd new_image;
              new_image = dict_set new_image ''protected'' (PBool protected)
          in Inr (h, new_image))
     else Inr (h, new_image))))"

section \<open>Example context\<close>

text \<open>
  A context for the closed examples: the location resolver pairs the project id with
  the zone, and the float conversion is the identity on floats and gives \<open>0.0\<close> on the
  integer zero, the only arguments the examples pass to it.
\<close>

definition example_cloud :: "bool \<Rightarrow> cloud" where
  "example_cloud strict =
     \<lparr>strict_mode = strict,
      current_location = PStr ''here'',
      get_current_location =
        (\<lambda>project_id zone. PTuple [project_id, case zone of None \<Rightarrow> PNone | Some z \<Rightarrow> z]),
      region_name = PStr ''region'',
      cloud_name = PStr ''cloud'',
      use_neutron_floating = True,
      py_float = (\<lambda>v. case v of
                         PFloat w \<Rightarrow> Inr (PFloat w)
                       | PInt n \<Rightarrow> if n = 0 then Inr (PFloat 0) else Inl OverflowError
                       | _ \<Rightarrow> Inl ValueError)\<rparr>"


text \<open>A Neutron security-group rule whose port bounds are numeric strings.\<close>

definition neutron_rule_store :: store where
  "neutron_rule_store =
     [[(''id'', PStr ''r2''), (''direction'', PStr ''egress''),
       (''port_range_min'', PStr ''80''), (''port_range_max'', PStr ''443''),
       (''protocol'', PStr ''tcp'')]]"




section \<open>Basic facts\<close>

lemma bind_err_simps [simp]: "bind_err (Inl e) f = Inl e" "bind_err (Inr x) f = f x"
  by (simp_all add: bind_err_def)

lemma bind_err_Inr_iff: "bind_err m f = Inr y \<longleftrightarrow> (\<exists>x. m = Inr x \<and> f x = Inr y)"
  by (cases m) simp_all

lemma Inr_bind_err_iff: "Inr y = bind_err m f \<longleftrightarrow> (\<exists>x. m = Inr x \<and> Inr y = f x)"
  by (cases m) simp_all

lemma map_of_dict_set [simp]:
  "map_of (dict_set d k v) k' = (if k' = k then Some v else map_of d k')"
  by (simp add: dict_set_def update_conv')

lemma map_of_dict_del [simp]:
  "map_of (dict_del d k) k' = (if k' = k then None else map_of d k')"
  by (simp add: dict_del_def delete_conv')

lemma dict_get_dict_del [simp]:
  "dict_get (dict_del d k) k' dflt = (if k' = k then dflt else dict_get d k' dflt)"
  by (simp add: dict_get_def)

lemma map_of_dict_setdefault:
  "map_of (dict_setdefault r k v) k' =
     (case map_of r k' of Some x \<Rightarrow> Some x | None \<Rightarrow> if k' = k then Some v else None)"
  by (auto simp: dict_setdefault_def map_add_def split: option.splits)

text \<open>The compatibility loop never replaces a key the record already has.\<close>

lemma map_of_setdefault_all:
  "map_of (setdefault_all props r) k =
     (case map_of r k of Some v \<Rightarrow> Some v | None \<Rightarrow> map_of props k)"
  unfolding setdefault_all_def
proof (induction props arbitrary: r)
  case Nil
  show ?case by (simp split: option.splits)
next
  case (Cons p props)
  obtain k' v' where p: "p = (k', v')" by (cases p)
  show ?case
    by (simp add: p Cons.IH map_of_dict_setdefault split: option.splits)
qed

lemma int_if_not_none_cases:
  "int_if_not_none x = Inr y \<Longrightarrow> y = PNone \<or> (\<exists>n. y = PInt n)"
  by (auto simp: int_if_not_none_def bind_err_Inr_iff split: if_splits)





lemma compat_loop_simp:
  "compat_loop self (h, ret, props) =
     Inr (h, if \<not> strict_mode self then setdefault_all props ret else ret)"
  by (simp add: compat_loop_def)

text \<open>Rewrite sets for looking a literal key up in a record built by the normalizers.\<close>

lemmas str_eq = list.inject list.distinct char.inject simp_thms if_True if_False

lemmas lookup_simps = map_of_dict_set map_of_dict_del dict_get_dict_del map_of_setdefault_all
  option.case option.inject option.distinct str_eq

section \<open>Security-group rules: the unbounded port\<close>



section \<open>Security-group rules: how the two port bounds are coerced\<close>

text \<open>
  Claim C10. Whenever the rule normalizer returns, the canonical \<^verbatim>\<open>port_range_min\<close> is
  \<^verbatim>\<open>None\<close> or an integer, while the canonical \<^verbatim>\<open>port_range_max\<close> is the raw value
  (\<^verbatim>\<open>port_range_max\<close>, else \<^verbatim>\<open>to_port\<close>, else \<^verbatim>\<open>None\<close>) exactly as found, except that
  a value equal to \<open>-1\<close> becomes \<^verbatim>\<open>None\<close>: the second guarded \<^verbatim>\<open>int\<close> conversion acts on
  \<^verbatim>\<open>port_range_min\<close> again and never on \<^verbatim>\<open>port_range_max\<close>.
\<close>

theorem secgroup_rule_port_coercion:
  assumes d: "deref h a = Some d"
    and ok: "normalize_secgroup_rule self h a = Inr (h', ret)"
  shows "(map_of ret ''port_range_min'' = Some PNone
            \<or> (\<exists>n. map_of ret ''port_range_min'' = Some (PInt n)))
     \<and> map_of ret ''port_range_max'' =
         Some (let raw = dict_get d ''port_range_max'' (dict_get d ''to_port'' PNone)
               in if py_eq_int raw (- 1) then PNone else raw)"
proof (cases "map_of d ''id''")
  case None
  from ok show ?thesis
    unfolding normalize_secgroup_rule_def secgroup_rule_record_def dict_pop_req_def
    by (simp only: d None option.case bind_err_simps sum.distinct)
next
  case (Some i)
  note step = ok[symmetric,
      unfolded normalize_secgroup_rule_def secgroup_rule_record_def Let_def
        dict_pop_req_def dict_pop_def,
      unfolded d Some option.case bind_err_simps prod.case Inr_bind_err_iff
        bind_err_Inr_iff alloc_def]
  from step obtain raw_min pmin where
    pmin: "int_if_not_none raw_min = Inr pmin" and
    ret: "map_of ret ''port_range_min'' = Some pmin"
         "map_of ret ''port_range_max'' =
            Some (let raw = dict_get d ''port_range_max'' (dict_get d ''to_port'' PNone)
                  in if py_eq_int raw (- 1) then PNone else raw)"
    apply (elim exE conjE)
    apply (simp only: sum.inject)
    apply hypsubst
    apply (simp only: compat_loop_simp sum.inject prod.inject)
    apply (elim conjE)
    apply (cases "strict_mode self")
     apply (simp_all only: lookup_simps Let_def)
    done
  from int_if_not_none_cases[OF pmin] ret show ?thesis
    by auto
qed

theorem secgroup_rule_port_coercion_witness:
  "\<exists>h' ret. normalize_secgroup_rule (example_cloud False) neutron_rule_store 0 = Inr (h', ret)
     \<and> map_of ret ''port_range_min'' = Some (PInt 80)
     \<and> map_of ret ''port_range_max'' = Some (PStr ''443'')"
proof -
  have ok: "normalize_secgroup_rule (example_cloud False) neutron_rule_store 0 =
    Inr (neutron_rule_store @ [[(''port_range_min'', PStr ''80'')]],
      [(''id'', PStr ''r2''), (''direction'', PStr ''egress''),
       (''ethertype'', PStr ''IPv4''), (''port_range_min'', PInt 80),
       (''port_range_max'', PStr ''443''), (''protocol'', PStr ''tcp''),
       (''remote_ip_prefix'', PNone), (''security_group_id'', PNone),
       (''remote_group_id'', PNone),
       (''location'', PTuple [PStr [], PNone]), (''properties'', PRef 1),
       (''tenant_id'', PStr []), (''project_id'', PStr [])])"
    by code_simp
  have d: "deref neutron_rule_store 0 = Some (neutron_rule_store ! 0)"
    by (simp add: deref_def neutron_rule_store_def)
  from secgroup_rule_port_coercion[OF d ok] ok show ?thesis
    by (simp add: neutron_rule_store_def dict_get_def)
qed

section \<open>Servers: a bare string as the image\<close>



section \<open>Servers: \<^verbatim>\<open>flavor\<close> and \<^verbatim>\<open>image\<close> are mandatory\<close>



end
